theory Spec2Isabelle
  imports Main
begin

section \<open>Python text\<close>

text \<open>
  blipt.py is a terminal scratchpad: a bounded list of text notes with commands to add,
  copy, delete and search them, and a history file to which every added note is appended.

  A Python \<open>str\<close> is a sequence of code points. It is modelled by \<^typ>\<open>string\<close>, each
  \<^typ>\<open>char\<close> standing for one code point of the range U+0000..U+00FF; the character
  classes the program relies on (\<open>str.isspace\<close>, \<open>str.isdigit\<close>, \<open>str.lower\<close>) are written
  out for that range as CPython's Unicode tables give them. Text with code points above
  U+00FF is outside the model.
\<close>

definition newline :: char where
  "newline = CHR 0x0A"

definition apostrophe :: char where
  "apostrophe = CHR 0x27"

definition whitespace :: string where
  "whitespace =
     [CHR 0x09, CHR 0x0A, CHR 0x0B, CHR 0x0C, CHR 0x0D, CHR 0x1C, CHR 0x1D, CHR 0x1E,
      CHR 0x1F, CHR 0x20, CHR 0x85, CHR 0xA0]"

definition isspace :: "char \<Rightarrow> bool" where
  "isspace c = (c \<in> set whitespace)"

text \<open>\<open>s.strip()\<close>: white space removed at both ends.\<close>

definition strip :: "string \<Rightarrow> string" where
  "strip s = rev (dropWhile isspace (rev (dropWhile isspace s)))"

definition uppercase :: string where
  "uppercase = ''ABCDEFGHIJKLMNOPQRSTUVWXYZ'' @
     [CHR 0xC0, CHR 0xC1, CHR 0xC2, CHR 0xC3, CHR 0xC4, CHR 0xC5, CHR 0xC6, CHR 0xC7,
      CHR 0xC8, CHR 0xC9, CHR 0xCA, CHR 0xCB, CHR 0xCC, CHR 0xCD, CHR 0xCE, CHR 0xCF,
      CHR 0xD0, CHR 0xD1, CHR 0xD2, CHR 0xD3, CHR 0xD4, CHR 0xD5, CHR 0xD6,
      CHR 0xD8, CHR 0xD9, CHR 0xDA, CHR 0xDB, CHR 0xDC, CHR 0xDD, CHR 0xDE]"

definition lowercase :: string where
  "lowercase = ''abcdefghijklmnopqrstuvwxyz'' @
     [CHR 0xE0, CHR 0xE1, CHR 0xE2, CHR 0xE3, CHR 0xE4, CHR 0xE5, CHR 0xE6, CHR 0xE7,
      CHR 0xE8, CHR 0xE9, CHR 0xEA, CHR 0xEB, CHR 0xEC, CHR 0xED, CHR 0xEE, CHR 0xEF,
      CHR 0xF0, CHR 0xF1, CHR 0xF2, CHR 0xF3, CHR 0xF4, CHR 0xF5, CHR 0xF6,
      CHR 0xF8, CHR 0xF9, CHR 0xFA, CHR 0xFB, CHR 0xFC, CHR 0xFD, CHR 0xFE]"

definition lower_char :: "char \<Rightarrow> char" where
  "lower_char c = (case map_of (zip uppercase lowercase) c of Some l \<Rightarrow> l | None \<Rightarrow> c)"

text \<open>\<open>s.lower()\<close>\<close>

definition lower :: "string \<Rightarrow> string" where
  "lower s = map lower_char s"

text \<open>\<open>s.startswith(p)\<close>\<close>

definition startswith :: "string \<Rightarrow> string \<Rightarrow> bool" where
  "startswith s p = (take (length p) s = p)"

text \<open>\<open>q in s\<close> on strings: \<open>q\<close> occurs in \<open>s\<close> as a contiguous run.\<close>

fun contains :: "string \<Rightarrow> string \<Rightarrow> bool" where
  "contains [] q = (q = [])"
| "contains (c # cs) q = (startswith (c # cs) q \<or> contains cs q)"

text \<open>
  \<open>s.isdigit()\<close>: non-empty, every character a digit. Below U+0100 the digits are
  \<open>0\<close>..\<open>9\<close> and the superscripts U+00B2, U+00B3 and U+00B9.
\<close>

definition decimal_digits :: string where
  "decimal_digits = ''0123456789''"

definition isdigit_char :: "char \<Rightarrow> bool" where
  "isdigit_char c = (c \<in> set (decimal_digits @ [CHR 0xB2, CHR 0xB3, CHR 0xB9]))"

definition isdigit :: "string \<Rightarrow> bool" where
  "isdigit s = (s \<noteq> [] \<and> list_all isdigit_char s)"

datatype error = IndexError | ValueError | EOFError | OSError

text \<open>
  \<open>int(s)\<close> for a string that passed \<open>isdigit\<close> (the only strings the program converts):
  the decimal value when every character is one of \<open>0\<close>..\<open>9\<close>, a \<open>ValueError\<close> for a
  superscript digit. CPython also raises \<open>ValueError\<close> when the interpreter's limit on
  the number of digits (\<open>sys.get_int_max_str_digits()\<close>, 0 for none) is exceeded.
\<close>

definition digit_value :: "char \<Rightarrow> nat" where
  "digit_value c = length (takeWhile (\<lambda>d. d \<noteq> c) decimal_digits)"

definition decimal_value :: "string \<Rightarrow> nat" where
  "decimal_value s = foldl (\<lambda>a c. 10 * a + digit_value c) 0 s"

definition py_int :: "nat \<Rightarrow> string \<Rightarrow> error + int" where
  "py_int max_str_digits s =
     (if s \<noteq> [] \<and> list_all (\<lambda>c. c \<in> set decimal_digits) s
          \<and> \<not> (0 < max_str_digits \<and> max_str_digits < length s)
      then Inr (int (decimal_value s)) else Inl ValueError)"

text \<open>\<open>str(n)\<close> and the \<open>{n}\<close> of an f-string, for an integer.\<close>

function str_nat :: "nat \<Rightarrow> string" where
  "str_nat n =
     (if n < 10 then [decimal_digits ! n]
      else str_nat (n div 10) @ [decimal_digits ! (n mod 10)])"
  by pat_completeness auto
termination
  by (relation "measure id") auto

declare str_nat.simps [simp del]

definition str_int :: "int \<Rightarrow> string" where
  "str_int i = (if i < 0 then ''-'' @ str_nat (nat (- i)) else str_nat (nat i))"

text \<open>\<open>sep.join(parts)\<close>\<close>

fun join :: "string \<Rightarrow> string list \<Rightarrow> string" where
  "join sep [] = []"
| "join sep [p] = p"
| "join sep (p # q # ps) = p @ sep @ join sep (q # ps)"

text \<open>
  \<open>s.split(None, 1)\<close>: leading white space is skipped, the first run of other characters
  is the first part, and what follows the white space after it, when anything does, is
  the second part, trailing white space included.
\<close>

definition split_once :: "string \<Rightarrow> string list" where
  "split_once s =
     (let s1 = dropWhile isspace s in
      if s1 = [] then []
      else
        let first = takeWhile (\<lambda>c. \<not> isspace c) s1;
            rest = dropWhile isspace (dropWhile (\<lambda>c. \<not> isspace c) s1)
        in if rest = [] then [first] else [first, rest])"

text \<open>
  \<open>s.replace(old, new)\<close>: the occurrences of \<open>old\<close> are replaced from the left, without
  overlap; for an empty \<open>old\<close>, \<open>new\<close> is put before every character and at the end.
\<close>

function replace :: "string \<Rightarrow> string \<Rightarrow> string \<Rightarrow> string" where
  "replace old new s =
     (if old = [] then concat (map (\<lambda>c. new @ [c]) s) @ new
      else if s = [] then []
      else if startswith s old then new @ replace old new (drop (length old) s)
      else hd s # replace old new (tl s))"
  by pat_completeness auto
termination
  by (relation "measure (\<lambda>(old, new, s). length s)") auto

declare replace.simps [simp del]

text \<open>\<open>xs.pop(i)\<close> for \<open>i \<ge> 0\<close>: the element and the list without it; \<open>None\<close> is the
  \<open>IndexError\<close> of an index out of range.\<close>

definition pop :: "nat \<Rightarrow> 'a list \<Rightarrow> ('a \<times> 'a list) option" where
  "pop i xs = (if i < length xs then Some (xs ! i, take i xs @ drop (Suc i) xs) else None)"

section \<open>The scratchpad and what surrounds it\<close>

text \<open>
  The fields of a \<open>Scratchpad\<close> object (\<open>notes\<close>, \<open>history_file\<close>, \<open>max_notes\<close>,
  \<open>unsaved_notes\<close>) together with the parts of the outside world its methods touch: the
  content of the file named \<open>history_file\<close> (\<open>None\<close> while the file does not exist), the
  system clipboard, and the lines still to be read from standard input.
\<close>

record state =
  "notes" :: "string list"
  history_file :: string
  max_notes :: int
  unsaved_notes :: "string list"
  history_content :: "string option"
  clipboard :: "string option"
  stdin :: "string list"

record datetime =
  year :: nat
  month :: nat
  day :: nat
  hour :: nat
  minute :: nat
  second :: nat

text \<open>
  What the environment answers during one call: the module flag \<open>HAS_CLIPBOARD\<close>, the
  message of the exception \<open>pyperclip.copy\<close> raises (if it does), the message of the
  \<open>IOError\<close> that opening the history file raises (if it does), the clock, and the
  interpreter's limit on the digits of an integer literal.
\<close>

record env =
  HAS_CLIPBOARD :: bool
  copy_failure :: "string option"
  history_failure :: "string option"
  now :: datetime
  int_max_str_digits :: nat

text \<open>
  What the program writes to the terminal, one event per message. \<open>show_status\<close> and
  \<open>show_error\<close> print their message behind a check mark or a cross and then sleep; the
  sleep only takes time and is not modelled.
\<close>

datatype event =
    ShowStatus string
  | ShowError string
  | PrintTextContent string
  | Screen "(nat \<times> string \<times> bool) list" nat int bool
  | SearchResults string "(nat \<times> string) list"
  | HelpScreen int
  | Welcome
  | Goodbye
  | UnexpectedError error

text \<open>
  How a method ends: it returns, it leaves the main loop (\<open>break\<close>), or an exception
  propagates out of it. Every method yields the state it leaves behind and the events it
  printed, also when it raises.
\<close>

datatype outcome = Returned | Break | Raised error

type_synonym result = "outcome \<times> state \<times> event list"

subsection \<open>The history file\<close>

definition history_header :: string where
  "history_header = ''# Scratchpad History'' @ [newline, newline]"

text \<open>\<open>init_history\<close>: an \<open>IOError\<close> from \<open>open(..., "w")\<close> is not caught.\<close>

definition init_history :: "env \<Rightarrow> state \<Rightarrow> result" where
  "init_history e s =
     (if history_content s = None then
        (case history_failure e of
           None \<Rightarrow> (Returned, s\<lparr>history_content := Some history_header\<rparr>, [])
         | Some msg \<Rightarrow> (Raised OSError, s, []))
      else (Returned, s, []))"

text \<open>\<open>Scratchpad.__init__\<close>, on the world \<open>w\<close> it is created in.\<close>

definition Scratchpad :: "env \<Rightarrow> state \<Rightarrow> string \<Rightarrow> int \<Rightarrow> result" where
  "Scratchpad e w file limit =
     init_history e
       (w\<lparr>notes := [], history_file := file, max_notes := limit, unsaved_notes := []\<rparr>)"

text \<open>
  \<open>datetime.strftime("%Y-%m-%d %H:%M:%S")\<close>: every field in decimal, filled with zeros to
  its width (for years from 1000 on, which is what a clock gives, the platforms agree).
\<close>

definition zero_pad :: "nat \<Rightarrow> nat \<Rightarrow> string" where
  "zero_pad w n = replicate (w - length (str_nat n)) (CHR ''0'') @ str_nat n"

definition strftime :: "datetime \<Rightarrow> string" where
  "strftime d =
     zero_pad 4 (year d) @ ''-'' @ zero_pad 2 (month d) @ ''-'' @ zero_pad 2 (day d) @ '' '' @
     zero_pad 2 (hour d) @ '':'' @ zero_pad 2 (minute d) @ '':'' @ zero_pad 2 (second d)"

definition history_line :: "datetime \<Rightarrow> string \<Rightarrow> string" where
  "history_line d note = ''- ['' @ strftime d @ ''] '' @ note @ [newline]"

text \<open>
  \<open>log_to_history\<close>: the file is opened for appending (which creates it when it is
  missing) and one line is written; an \<open>IOError\<close> is caught and shown. The failure is
  that of \<open>open\<close>: nothing has been written when it occurs.
\<close>

definition log_to_history :: "env \<Rightarrow> state \<Rightarrow> string \<Rightarrow> state \<times> event list" where
  "log_to_history e s note =
     (let timestamp_line = history_line (now e) note in
      case history_failure e of
        None \<Rightarrow>
          (s\<lparr>history_content :=
               Some ((case history_content s of None \<Rightarrow> [] | Some old \<Rightarrow> old) @ timestamp_line)\<rparr>,
           [])
      | Some msg \<Rightarrow> (s, [ShowError (''Failed to write to history: '' @ msg)]))"

subsection \<open>The clipboard\<close>

definition safe_clipboard_copy :: "env \<Rightarrow> state \<Rightarrow> string \<Rightarrow> bool \<times> state \<times> event list" where
  "safe_clipboard_copy e s txt =
     (if \<not> HAS_CLIPBOARD e then
        (False, s, [ShowError ''Clipboard not available - install pyperclip'', PrintTextContent txt])
      else
        (case copy_failure e of
           None \<Rightarrow> (True, s\<lparr>clipboard := Some txt\<rparr>, [])
         | Some msg \<Rightarrow> (False, s, [ShowError (''Copy failed: '' @ msg), PrintTextContent txt])))"

subsection \<open>The note store\<close>

text \<open>Lines 168 to 170 of \<open>handle_add\<close>: append, log, confirm.\<close>

definition append_note :: "env \<Rightarrow> state \<Rightarrow> string \<Rightarrow> result" where
  "append_note e s note =
     (let s1 = s\<lparr>notes := notes s @ [note]\<rparr>;
          (s2, logged) = log_to_history e s1 note
      in (Returned, s2, logged @ [ShowStatus (''Added note #'' @ str_nat (length (notes s2)))]))"

definition handle_add :: "env \<Rightarrow> state \<Rightarrow> string \<Rightarrow> result" where
  "handle_add e s note =
     (if note = [] then (Returned, s, [ShowError ''Cannot add empty text''])
      else if max_notes s \<le> int (length (notes s)) then
        (case pop 0 (notes s) of
           None \<Rightarrow> (Raised IndexError, s, [])
         | Some (oldest, kept) \<Rightarrow>
             (let (out, s', evs) = append_note e (s\<lparr>notes := kept\<rparr>) note
              in (out, s',
                  ShowStatus (''Removed oldest note (limit: '' @ str_int (max_notes s) @ '')'') # evs)))
      else append_note e s note)"

definition handle_copy :: "env \<Rightarrow> state \<Rightarrow> int \<Rightarrow> result" where
  "handle_copy e s index =
     (if index < 1 \<or> int (length (notes s)) < index then
        (Returned, s, [ShowError ''Invalid note number''])
      else
        (let note_text = notes s ! nat (index - 1);
             (copied, s', evs) = safe_clipboard_copy e s note_text
         in (Returned, s',
             evs @ (if copied then [ShowStatus (''Copied note #'' @ str_int index)] else []))))"

text \<open>Line 188: the notes as a numbered list, one per line.\<close>

definition all_text :: "string list \<Rightarrow> string" where
  "all_text ns =
     join [newline] (map (\<lambda>(i, note). str_nat (i + 1) @ ''. '' @ note) (enumerate 0 ns))"

definition handle_copy_all :: "env \<Rightarrow> state \<Rightarrow> result" where
  "handle_copy_all e s =
     (if notes s = [] then (Returned, s, [ShowError ''Nothing to copy''])
      else
        (let (copied, s', evs) = safe_clipboard_copy e s (all_text (notes s))
         in (Returned, s',
             evs @ (if copied
                    then [ShowStatus (''Copied all '' @ str_nat (length (notes s)) @ '' notes'')]
                    else []))))"

text \<open>Line 200: the preview of a deleted note.\<close>

definition preview :: "string \<Rightarrow> string" where
  "preview deleted_note =
     (if 30 < length deleted_note then take 30 deleted_note @ ''...'' else deleted_note)"

definition handle_delete :: "state \<Rightarrow> int \<Rightarrow> result" where
  "handle_delete s index =
     (if index < 1 \<or> int (length (notes s)) < index then
        (Returned, s, [ShowError ''Invalid note number''])
      else
        (case pop (nat (index - 1)) (notes s) of
           None \<Rightarrow> (Raised IndexError, s, [])
         | Some (deleted_note, kept) \<Rightarrow>
             (Returned, s\<lparr>notes := kept\<rparr>,
              [ShowStatus (''Deleted: '' @ [apostrophe] @ preview deleted_note @ [apostrophe])])))"

definition handle_delete_all :: "state \<Rightarrow> result" where
  "handle_delete_all s =
     (if notes s = [] then (Returned, s, [ShowError ''Nothing to delete''])
      else
        (Returned, s\<lparr>notes := []\<rparr>,
         [ShowStatus (''Deleted all '' @ str_nat (length (notes s)) @ '' notes'')]))"

text \<open>Lines 219 to 222 of \<open>handle_search\<close>: the loop that collects the matches, \<open>i\<close>
  being the position \<open>enumerate\<close> has reached.\<close>

fun search_loop :: "string \<Rightarrow> nat \<Rightarrow> string list \<Rightarrow> (nat \<times> string) list" where
  "search_loop query i [] = []"
| "search_loop query i (note # rest) =
     (if contains (lower note) (lower query) then [(i + 1, note)] else [])
     @ search_loop query (Suc i) rest"

definition search_matches :: "string \<Rightarrow> string list \<Rightarrow> (nat \<times> string) list" where
  "search_matches query ns = search_loop query 0 ns"

text \<open>\<open>input()\<close>: the next line of standard input; \<open>None\<close> is the \<open>EOFError\<close> at its end.\<close>

definition py_input :: "state \<Rightarrow> (string \<times> state) option" where
  "py_input s = (case stdin s of [] \<Rightarrow> None | l # ls \<Rightarrow> Some (l, s\<lparr>stdin := ls\<rparr>))"

definition handle_search :: "state \<Rightarrow> string \<Rightarrow> result" where
  "handle_search s query =
     (if query = [] then (Returned, s, [ShowError ''Please provide a search term''])
      else
        (let matches = search_matches query (notes s) in
         if matches = [] then
           (Returned, s,
            [ShowError (''No notes found containing '' @ [apostrophe] @ query @ [apostrophe])])
         else
           (let shown =
                  [SearchResults query
                     (map (\<lambda>(index, note). (index, replace query (''['' @ query @ '']'') note))
                        matches)]
            in case py_input s of
                 None \<Rightarrow> (Raised EOFError, s, shown)
               | Some (l, s') \<Rightarrow> (Returned, s', shown))))"

section \<open>The session\<close>

text \<open>
  \<open>parse_command\<close> returns the pair \<open>(None, [])\<close> for an empty command, modelled by
  \<open>None\<close>, and otherwise the lowercased first word and the rest. On a command of white
  space only \<open>parts\<close> is empty and \<open>parts[0]\<close> raises.
\<close>

definition parse_command :: "string \<Rightarrow> error + (string \<times> string) option" where
  "parse_command command =
     (if command = [] then Inr None
      else
        (case split_once command of
           [] \<Rightarrow> Inl IndexError
         | action # others \<Rightarrow>
             Inr (Some (lower action, (case others of [] \<Rightarrow> [] | args # _ \<Rightarrow> args)))))"

text \<open>\<open>get_user_input\<close>: the line read, stripped; at the end of input, \<open>exit\<close>.\<close>

definition get_user_input :: "state \<Rightarrow> string \<times> state \<times> event list" where
  "get_user_input s =
     (case py_input s of
        None \<Rightarrow> (''exit'', s, [Goodbye])
      | Some (l, s') \<Rightarrow> (strip l, s', []))"

text \<open>
  \<open>redraw\<close>: one row per note with its number, the first line of the note (cut to 67
  characters and an ellipsis when longer than 70) and whether more text is hidden; then
  the count, the limit and the clipboard flag of the status line.
\<close>

definition display_row :: "string \<Rightarrow> string \<times> bool" where
  "display_row note =
     (let first_line = takeWhile (\<lambda>c. c \<noteq> newline) note in
      if 70 < length first_line then (take 67 first_line @ ''...'', True)
      else (first_line, newline \<in> set note))"

definition redraw :: "env \<Rightarrow> state \<Rightarrow> event list" where
  "redraw e s =
     [Screen (map (\<lambda>(i, note). (i, display_row note)) (enumerate 1 (notes s)))
        (length (notes s)) (max_notes s) (HAS_CLIPBOARD e)]"

definition show_help :: "state \<Rightarrow> result" where
  "show_help s =
     (case py_input s of
        None \<Rightarrow> (Raised EOFError, s, [HelpScreen (max_notes s)])
      | Some (l, s') \<Rightarrow> (Returned, s', [HelpScreen (max_notes s)]))"

text \<open>Lines 262 to 290 of \<open>run\<close>: what one pass of the loop does with the command read.\<close>

definition dispatch :: "env \<Rightarrow> state \<Rightarrow> string \<Rightarrow> result" where
  "dispatch e s command =
     (if lower command = ''exit'' then (Break, s, [])
      else if lower command = ''copy all'' then handle_copy_all e s
      else if lower command = ''delete all'' then handle_delete_all s
      else if startswith command ''add '' then handle_add e s (strip (drop 4 command))
      else if startswith command ''copy '' then
        (let arg = strip (drop 5 command) in
         if isdigit arg then
           (case py_int (int_max_str_digits e) arg of
              Inl err \<Rightarrow> (Raised err, s, [])
            | Inr index \<Rightarrow> handle_copy e s index)
         else (Returned, s, [ShowError ''Usage: copy <number>'']))
      else if startswith command ''delete '' then
        (let arg = strip (drop 7 command) in
         if isdigit arg then
           (case py_int (int_max_str_digits e) arg of
              Inl err \<Rightarrow> (Raised err, s, [])
            | Inr index \<Rightarrow> handle_delete s index)
         else (Returned, s, [ShowError ''Usage: delete <number>'']))
      else if startswith command ''search '' then handle_search s (strip (drop 7 command))
      else if lower command = ''help'' \<or> lower command = ''?'' then show_help s
      else if command \<noteq> [] then
        (Returned, s,
         [ShowError (''Unknown command. Type '' @ [apostrophe] @ ''help'' @ [apostrophe]
                     @ '' for available commands'')])
      else (Returned, s, []))"

definition run_iteration :: "env \<Rightarrow> state \<Rightarrow> result" where
  "run_iteration e s =
     (let drawn = redraw e s;
          (command, s1, greeted) = get_user_input s;
          (out, s2, evs) = dispatch e s1 command
      in (out, s2, drawn @ greeted @ evs))"

section \<open>The main loop\<close>

text \<open>
  \<open>run\<close>: the loop passes until a \<open>break\<close> or an exception; \<open>envs i\<close> is the environment
  during pass \<open>i\<close>. The loop ends: a pass that does not leave it has read a line of the
  input, and at the end of the input the command is \<open>exit\<close>.
\<close>

function run_loop :: "(nat \<Rightarrow> env) \<Rightarrow> nat \<Rightarrow> state \<Rightarrow> result" where
  "run_loop envs i s =
     (let (out, s', evs) = run_iteration (envs i) s in
      if out = Returned then
        (let (out', s'', evs') = run_loop envs (Suc i) s' in (out', s'', evs @ evs'))
      else (if out = Break then Returned else out, s', evs))"
  by pat_completeness auto
termination
proof (relation "measure (\<lambda>(envs, i, s). length (stdin s))", goal_cases)
  case 1
  show ?case by simp
next
  case (2 envs i s x out rest s' evs)
  have kept: "length (stdin s2) \<le> length (stdin s1)"
    if "dispatch e s1 c = (out2, s2, evs2)" for e s1 c out2 s2 evs2
    using that
    by (auto simp: dispatch_def handle_copy_all_def handle_delete_all_def handle_add_def
         handle_copy_def handle_delete_def handle_search_def show_help_def append_note_def
         log_to_history_def safe_clipboard_copy_def py_input_def Let_def
         split: if_splits option.splits sum.splits prod.splits list.splits)
  have "lower ''exit'' = ''exit''"
    by (simp add: lower_def lower_char_def uppercase_def lowercase_def)
  then have leave: "dispatch e s1 ''exit'' = (Break, s1, [])" for e s1
    by (simp add: dispatch_def)
  from 2 have pass: "run_iteration (envs i) s = (Returned, s', evs)" by simp
  have "length (stdin s') < length (stdin s)"
  proof (cases "stdin s")
    case Nil
    then have "run_iteration (envs i) s = (Break, s, redraw (envs i) s @ [Goodbye])"
      by (simp add: run_iteration_def get_user_input_def py_input_def leave)
    with pass show ?thesis by simp
  next
    case (Cons l ls)
    obtain out2 s2 evs2
      where d: "dispatch (envs i) (s\<lparr>stdin := ls\<rparr>) (strip l) = (out2, s2, evs2)"
      by (cases "dispatch (envs i) (s\<lparr>stdin := ls\<rparr>) (strip l)") auto
    from Cons d pass have "s2 = s'"
      by (simp add: run_iteration_def get_user_input_def py_input_def)
    moreover from kept [OF d] have "length (stdin s2) \<le> length ls" by simp
    ultimately show ?thesis using Cons by simp
  qed
  then show ?case by simp
qed

declare run_loop.simps [simp del]

definition run :: "(nat \<Rightarrow> env) \<Rightarrow> state \<Rightarrow> result" where
  "run envs s = (let (out, s', evs) = run_loop envs 0 s in (out, s', Welcome # evs))"

text \<open>
  \<open>main\<close>: the scratchpad with its default file name and limit, then the loop; the exit
  status is 1 when an exception reached the top, 0 otherwise. An interrupt from the
  keyboard, which can arrive at any point, is not modelled.
\<close>

definition main :: "env \<Rightarrow> (nat \<Rightarrow> env) \<Rightarrow> state \<Rightarrow> nat \<times> state \<times> event list" where
  "main e0 envs w =
     (case Scratchpad e0 w ''Scratchmd.md'' 100 of
        (Raised err, s, evs) \<Rightarrow> (1, s, evs @ [UnexpectedError err])
      | (_, s, evs) \<Rightarrow>
          (case run envs s of
             (Raised err, s', evs') \<Rightarrow> (1, s', evs @ evs' @ [UnexpectedError err])
           | (_, s', evs') \<Rightarrow> (0, s', evs @ evs')))"

section \<open>Vocabulary of the properties\<close>

text \<open>The notice \<open>handle_add\<close> shows when it drops the oldest note, and its recogniser.\<close>

definition eviction_notice :: "int \<Rightarrow> event" where
  "eviction_notice limit = ShowStatus (''Removed oldest note (limit: '' @ str_int limit @ '')'')"

definition is_eviction_notice :: "event \<Rightarrow> bool" where
  "is_eviction_notice ev =
     (case ev of ShowStatus msg \<Rightarrow> startswith msg ''Removed oldest note'' | _ \<Rightarrow> False)"

text \<open>
  A sequence of calls of \<open>handle_add\<close>, each in its own environment, as a caller makes
  them one after the other; an exception ends the sequence.
\<close>

fun add_all :: "state \<Rightarrow> (env \<times> string) list \<Rightarrow> result" where
  "add_all s [] = (Returned, s, [])"
| "add_all s ((e, note) # calls) =
     (let (out, s', evs) = handle_add e s note in
      if out = Returned then
        (let (out', s'', evs') = add_all s' calls in (out', s'', evs @ evs'))
      else (out, s', evs))"

text \<open>An environment in which nothing fails, and an empty scratchpad with a given limit.\<close>

definition example_env :: env where
  "example_env =
     \<lparr>HAS_CLIPBOARD = True, copy_failure = None, history_failure = None,
      now = \<lparr>year = 2024, month = 3, day = 9, hour = 7, minute = 5, second = 0\<rparr>,
      int_max_str_digits = 4300\<rparr>"

definition empty_pad :: "int \<Rightarrow> state" where
  "empty_pad limit =
     \<lparr>notes = [], history_file = ''Scratchmd.md'', max_notes = limit, unsaved_notes = [],
      history_content = Some history_header, clipboard = None, stdin = []\<rparr>"





text \<open>The answer of the loop to a command it does not know.\<close>

definition unknown_command :: event where
  "unknown_command =
     ShowError (''Unknown command. Type '' @ [apostrophe] @ ''help'' @ [apostrophe]
                @ '' for available commands'')"

section \<open>Adding notes\<close>

lemma log_to_history_fields:
  "notes (fst (log_to_history e s n)) = notes s"
  "max_notes (fst (log_to_history e s n)) = max_notes s"
  "clipboard (fst (log_to_history e s n)) = clipboard s"
  "stdin (fst (log_to_history e s n)) = stdin s"
  by (simp_all add: log_to_history_def Let_def split: option.splits)

lemma log_to_history_events:
  "snd (log_to_history e s n) =
     (case history_failure e of None \<Rightarrow> []
      | Some msg \<Rightarrow> [ShowError (''Failed to write to history: '' @ msg)])"
  by (simp add: log_to_history_def Let_def split: option.splits)

lemma append_note_eq:
  "append_note e s n =
     (Returned, fst (log_to_history e (s\<lparr>notes := notes s @ [n]\<rparr>) n),
      snd (log_to_history e (s\<lparr>notes := notes s @ [n]\<rparr>) n)
      @ [ShowStatus (''Added note #'' @ str_nat (Suc (length (notes s))))])"
  by (simp add: append_note_def Let_def split_beta log_to_history_fields)

lemma handle_add_full:
  assumes "n \<noteq> []" "max_notes s \<le> int (length (notes s))" "notes s \<noteq> []"
  shows "handle_add e s n =
     (Returned, fst (log_to_history e (s\<lparr>notes := tl (notes s) @ [n]\<rparr>) n),
      eviction_notice (max_notes s)
      # snd (log_to_history e (s\<lparr>notes := tl (notes s) @ [n]\<rparr>) n)
      @ [ShowStatus (''Added note #'' @ str_nat (length (notes s)))])"
proof -
  from assms(3) obtain x xs where "notes s = x # xs" by (cases "notes s") auto
  with assms(1,2) show ?thesis
    by (simp add: handle_add_def pop_def append_note_eq eviction_notice_def drop_Suc)
qed

lemma handle_add_room:
  assumes "n \<noteq> []" "int (length (notes s)) < max_notes s"
  shows "handle_add e s n =
     (Returned, fst (log_to_history e (s\<lparr>notes := notes s @ [n]\<rparr>) n),
      snd (log_to_history e (s\<lparr>notes := notes s @ [n]\<rparr>) n)
      @ [ShowStatus (''Added note #'' @ str_nat (Suc (length (notes s))))])"
  using assms by (simp add: handle_add_def append_note_eq)

lemma not_eviction [simp]:
  "\<not> is_eviction_notice (ShowStatus (CHR ''A'' # m))"
  "\<not> is_eviction_notice (ShowError m)"
  "is_eviction_notice (eviction_notice k)"
  by (simp_all add: is_eviction_notice_def startswith_def eviction_notice_def)

lemma filter_log [simp]:
  "filter is_eviction_notice (snd (log_to_history e s n)) = []"
  by (simp add: log_to_history_events split: option.splits)


lemma handle_add_bound:
  assumes "n \<noteq> []" "1 \<le> max_notes s" "int (length (notes s)) \<le> max_notes s"
  shows "\<exists>s' evs. handle_add e s n = (Returned, s', evs) \<and> max_notes s' = max_notes s
           \<and> int (length (notes s')) \<le> max_notes s'"
proof (cases "int (length (notes s)) < max_notes s")
  case True
  with assms show ?thesis
    by (simp add: handle_add_room log_to_history_fields)
next
  case False
  with assms have full: "max_notes s \<le> int (length (notes s))" and ne: "notes s \<noteq> []"
    by auto
  from ne have "length (tl (notes s)) = length (notes s) - 1" by simp
  with assms ne full show ?thesis
    by (simp add: handle_add_full log_to_history_fields)
qed

lemma add_all_bound:
  assumes "1 \<le> max_notes s" "int (length (notes s)) \<le> max_notes s"
    "\<forall>c \<in> set calls. snd c \<noteq> []"
  shows "\<exists>s' evs. add_all s calls = (Returned, s', evs) \<and> max_notes s' = max_notes s
           \<and> int (length (notes s')) \<le> max_notes s'"
  using assms
proof (induction calls arbitrary: s)
  case Nil
  then show ?case by simp
next
  case (Cons c calls)
  obtain e n where c: "c = (e, n)" by (cases c)
  with Cons.prems have "n \<noteq> []" by simp
  from handle_add_bound [OF this Cons.prems(1,2)]
  obtain s1 evs1 where h: "handle_add e s n = (Returned, s1, evs1)"
    "max_notes s1 = max_notes s" "int (length (notes s1)) \<le> max_notes s1"
    by blast
  from Cons.prems h have "1 \<le> max_notes s1" "\<forall>c \<in> set calls. snd c \<noteq> []" by simp_all
  from Cons.IH [OF this(1) h(3) this(2)]
  obtain s2 evs2 where "add_all s1 calls = (Returned, s2, evs2)"
    "max_notes s2 = max_notes s1" "int (length (notes s2)) \<le> max_notes s2"
    by blast
  with h c show ?case by simp
qed

lemma handle_add_step:
  assumes "n \<noteq> []" "notes s \<noteq> [] \<or> int (length (notes s)) < max_notes s"
  shows "\<exists>s' evs. handle_add e s n = (Returned, s', evs) \<and> max_notes s' = max_notes s
     \<and> notes s' = (if max_notes s \<le> int (length (notes s)) then tl (notes s) else notes s) @ [n]
     \<and> length (filter is_eviction_notice evs)
         = (if max_notes s \<le> int (length (notes s)) then 1 else 0)"
proof (cases "max_notes s \<le> int (length (notes s))")
  case True
  with assms show ?thesis by (simp add: handle_add_full log_to_history_fields)
next
  case False
  with assms show ?thesis by (simp add: handle_add_room log_to_history_fields)
qed

lemma add_xyz:
  assumes "notes s = []" "max_notes s = 2"
  shows "\<exists>s' evs. add_all s [(e1, ''x''), (e2, ''y''), (e3, ''z'')] = (Returned, s', evs)
           \<and> notes s' = [''y'', ''z''] \<and> length (filter is_eviction_notice evs) = 1"
proof -
  from assms handle_add_step [of "''x''" s e1]
  obtain s1 evs1 where 1: "handle_add e1 s ''x'' = (Returned, s1, evs1)"
    "max_notes s1 = 2" "notes s1 = [''x'']" "length (filter is_eviction_notice evs1) = 0"
    by auto
  from 1 handle_add_step [of "''y''" s1 e2]
  obtain s2 evs2 where 2: "handle_add e2 s1 ''y'' = (Returned, s2, evs2)"
    "max_notes s2 = 2" "notes s2 = [''x'', ''y'']" "length (filter is_eviction_notice evs2) = 0"
    by auto
  from 2 handle_add_step [of "''z''" s2 e3]
  obtain s3 evs3 where 3: "handle_add e3 s2 ''z'' = (Returned, s3, evs3)"
    "max_notes s3 = 2" "notes s3 = [''y'', ''z'']" "length (filter is_eviction_notice evs3) = 1"
    by auto
  from 1 2 3 show ?thesis by simp
qed

text \<open>
  C1, as the code has it. For a limit of at least 1 and a store within its limit: every
  sequence of \<open>handle_add\<close> calls with non-empty text returns normally and leaves the
  store within the limit (so it is within the limit after every call of the sequence);
  an add to a store that holds exactly \<open>max_notes\<close> notes drops the note at position 0,
  appends the new one and shows the eviction notice exactly once, first; an add to a
  store with room appends and shows no eviction notice; and from the empty store with
  limit 2 the adds of \<open>x\<close>, \<open>y\<close>, \<open>z\<close> end with the store \<open>[y, z]\<close> and exactly one
  eviction notice among all the events.
\<close>

theorem add_keeps_limit_by_evicting_oldest:
  "(1 \<le> max_notes s \<and> int (length (notes s)) \<le> max_notes s \<and> (\<forall>c \<in> set calls. snd c \<noteq> [])
      \<longrightarrow> (\<exists>s' evs. add_all s calls = (Returned, s', evs) \<and> max_notes s' = max_notes s
             \<and> int (length (notes s')) \<le> max_notes s'))
   \<and> (1 \<le> max_notes s \<and> int (length (notes s)) = max_notes s \<and> n \<noteq> []
      \<longrightarrow> (\<exists>s' evs. handle_add e s n = (Returned, s', evs)
             \<and> notes s' = tl (notes s) @ [n]
             \<and> hd evs = eviction_notice (max_notes s)
             \<and> length (filter is_eviction_notice evs) = 1))
   \<and> (int (length (notes s)) < max_notes s \<and> n \<noteq> []
      \<longrightarrow> (\<exists>s' evs. handle_add e s n = (Returned, s', evs)
             \<and> notes s' = notes s @ [n]
             \<and> filter is_eviction_notice evs = []))
   \<and> (notes s = [] \<and> max_notes s = 2
      \<longrightarrow> (\<exists>s' evs. add_all s [(e1, ''x''), (e2, ''y''), (e3, ''z'')] = (Returned, s', evs)
             \<and> notes s' = [''y'', ''z''] \<and> length (filter is_eviction_notice evs) = 1))"
proof (intro conjI impI)
  assume "1 \<le> max_notes s \<and> int (length (notes s)) \<le> max_notes s
            \<and> (\<forall>c \<in> set calls. snd c \<noteq> [])"
  then show "\<exists>s' evs. add_all s calls = (Returned, s', evs) \<and> max_notes s' = max_notes s
           \<and> int (length (notes s')) \<le> max_notes s'"
    by (intro add_all_bound) simp_all
next
  assume a: "1 \<le> max_notes s \<and> int (length (notes s)) = max_notes s \<and> n \<noteq> []"
  then have "notes s \<noteq> []" by auto
  with a show "\<exists>s' evs. handle_add e s n = (Returned, s', evs)
             \<and> notes s' = tl (notes s) @ [n]
             \<and> hd evs = eviction_notice (max_notes s)
             \<and> length (filter is_eviction_notice evs) = 1"
    by (simp add: handle_add_full log_to_history_fields)
next
  assume "int (length (notes s)) < max_notes s \<and> n \<noteq> []"
  then show "\<exists>s' evs. handle_add e s n = (Returned, s', evs)
             \<and> notes s' = notes s @ [n]
             \<and> filter is_eviction_notice evs = []"
    by (simp add: handle_add_room log_to_history_fields)
next
  assume "notes s = [] \<and> max_notes s = 2"
  then show "\<exists>s' evs. add_all s [(e1, ''x''), (e2, ''y''), (e3, ''z'')] = (Returned, s', evs)
             \<and> notes s' = [''y'', ''z''] \<and> length (filter is_eviction_notice evs) = 1"
    by (intro add_xyz) simp_all
qed

text \<open>
  C1 without the bound on the limit does not hold: with \<open>max_notes = 0\<close> the empty store
  holds \<open>max_notes\<close> notes, \<open>notes.pop(0)\<close> raises \<open>IndexError\<close> and nothing is appended.
\<close>

theorem add_with_limit_zero_raises:
  "int (length (notes (empty_pad 0))) = max_notes (empty_pad 0)
   \<and> handle_add example_env (empty_pad 0) ''x'' = (Raised IndexError, empty_pad 0, [])"
  by (simp add: handle_add_def empty_pad_def pop_def)

text \<open>The hypotheses of C1 hold for the empty and for the full scratchpad of limit 2.\<close>

theorem add_keeps_limit_by_evicting_oldest_witness:
  "(\<exists>s' evs. add_all (empty_pad 2) [(example_env, ''x''), (example_env, ''y''), (example_env, ''z'')]
        = (Returned, s', evs)
      \<and> max_notes s' = 2 \<and> int (length (notes s')) \<le> max_notes s')
   \<and> (\<exists>s' evs. handle_add example_env ((empty_pad 2)\<lparr>notes := [''x'', ''y'']\<rparr>) ''z''
        = (Returned, s', evs)
      \<and> notes s' = [''y'', ''z''] \<and> hd evs = eviction_notice 2
      \<and> length (filter is_eviction_notice evs) = 1)
   \<and> (\<exists>s' evs. handle_add example_env (empty_pad 2) ''x'' = (Returned, s', evs)
      \<and> notes s' = [''x''] \<and> filter is_eviction_notice evs = [])
   \<and> (\<exists>s' evs. add_all (empty_pad 2) [(example_env, ''x''), (example_env, ''y''), (example_env, ''z'')]
        = (Returned, s', evs)
      \<and> notes s' = [''y'', ''z''] \<and> length (filter is_eviction_notice evs) = 1)"
  using add_keeps_limit_by_evicting_oldest
          [where s = "empty_pad 2" and n = "''x''" and e = example_env
             and calls = "[(example_env, ''x''), (example_env, ''y''), (example_env, ''z'')]"
             and ?e1.0 = example_env and ?e2.0 = example_env and ?e3.0 = example_env]
        add_keeps_limit_by_evicting_oldest
          [where s = "(empty_pad 2)\<lparr>notes := [''x'', ''y'']\<rparr>" and n = "''z''" and e = example_env
             and calls = "[]"]
  by (simp add: empty_pad_def)

section \<open>Deleting a note\<close>



lemma handle_copy_invalid:
  "i < 1 \<or> int (length (notes s)) < i \<Longrightarrow>
     handle_copy e s i = (Returned, s, [ShowError ''Invalid note number''])"
  by (simp add: handle_copy_def)



section \<open>Copying and searching\<close>

lemma safe_clipboard_copy_fields:
  "notes (fst (snd (safe_clipboard_copy e s t))) = notes s"
  "max_notes (fst (snd (safe_clipboard_copy e s t))) = max_notes s"
  "history_content (fst (snd (safe_clipboard_copy e s t))) = history_content s"
  by (simp_all add: safe_clipboard_copy_def split: option.splits)

lemma handle_copy_fields:
  "notes (fst (snd (handle_copy e s i))) = notes s"
  "max_notes (fst (snd (handle_copy e s i))) = max_notes s"
  "history_content (fst (snd (handle_copy e s i))) = history_content s"
  by (simp_all add: handle_copy_def Let_def split_beta safe_clipboard_copy_fields)

lemma handle_copy_all_fields:
  "notes (fst (snd (handle_copy_all e s))) = notes s"
  "max_notes (fst (snd (handle_copy_all e s))) = max_notes s"
  "history_content (fst (snd (handle_copy_all e s))) = history_content s"
  by (simp_all add: handle_copy_all_def Let_def split_beta safe_clipboard_copy_fields)

lemma handle_search_fields:
  "notes (fst (snd (handle_search s q))) = notes s"
  "max_notes (fst (snd (handle_search s q))) = max_notes s"
  "history_content (fst (snd (handle_search s q))) = history_content s"
  by (simp_all add: handle_search_def Let_def py_input_def split: list.splits)

text \<open>
  C10. Whatever the state, the environment and the argument, the state that
  \<open>handle_copy\<close>, \<open>handle_copy_all\<close> and \<open>handle_search\<close> leave behind has the same
  \<open>notes\<close> and the same \<open>max_notes\<close> as the state they started in: on success, on a
  refused argument, on a failing clipboard, and when \<open>handle_search\<close> meets the end of
  the input while it waits for Enter.
\<close>

theorem queries_leave_store_unchanged:
  "notes (fst (snd (handle_copy e s i))) = notes s
   \<and> max_notes (fst (snd (handle_copy e s i))) = max_notes s
   \<and> notes (fst (snd (handle_copy_all e s))) = notes s
   \<and> max_notes (fst (snd (handle_copy_all e s))) = max_notes s
   \<and> notes (fst (snd (handle_search s q))) = notes s
   \<and> max_notes (fst (snd (handle_search s q))) = max_notes s"
  by (simp add: handle_copy_fields handle_copy_all_fields handle_search_fields)

text \<open>C10 with a failing clipboard, an index out of range, a full copy and a search.\<close>

theorem queries_leave_store_unchanged_witness:
  "notes (fst (snd (handle_copy (example_env\<lparr>copy_failure := Some ''no display''\<rparr>)
             ((empty_pad 5)\<lparr>notes := [''Hello world'', ''b'']\<rparr>) 1)))
     = [''Hello world'', ''b'']
   \<and> max_notes (fst (snd (handle_copy example_env ((empty_pad 5)\<lparr>notes := [''Hello world'', ''b'']\<rparr>) 7)))
     = 5
   \<and> notes (fst (snd (handle_copy_all example_env ((empty_pad 5)\<lparr>notes := [''Hello world'', ''b'']\<rparr>))))
     = [''Hello world'', ''b'']
   \<and> notes (fst (snd (handle_search ((empty_pad 5)\<lparr>notes := [''Hello world'', ''b''], stdin := ['''']\<rparr>)
             ''HELLO'')))
     = [''Hello world'', ''b'']"
  using queries_leave_store_unchanged
          [where e = "example_env\<lparr>copy_failure := Some ''no display''\<rparr>"
             and s = "(empty_pad 5)\<lparr>notes := [''Hello world'', ''b'']\<rparr>" and i = 1]
        queries_leave_store_unchanged
          [where e = example_env
             and s = "(empty_pad 5)\<lparr>notes := [''Hello world'', ''b'']\<rparr>" and i = 7]
        queries_leave_store_unchanged
          [where s = "(empty_pad 5)\<lparr>notes := [''Hello world'', ''b''], stdin := ['''']\<rparr>"
             and q = "''HELLO''"]
  by (simp add: empty_pad_def)

lemma all_text_nth:
  "all_text ns = join [newline] (map (\<lambda>i. str_nat (i + 1) @ ''. '' @ ns ! i) [0..<length ns])"
proof -
  have "map (\<lambda>(i, note). str_nat (i + 1) @ ''. '' @ note) (enumerate 0 ns)
        = map (\<lambda>i. str_nat (i + 1) @ ''. '' @ ns ! i) [0..<length ns]"
    by (rule nth_equalityI) (simp_all add: nth_enumerate_eq)
  then show ?thesis by (simp add: all_text_def)
qed

lemma str_nat_small: "n < 10 \<Longrightarrow> str_nat n = [decimal_digits ! n]"
  by (simp add: str_nat.simps)

lemma all_text_ab: "all_text [''a'', ''b''] = ''1. a'' @ [newline] @ ''2. b''"
  by (simp add: all_text_def enumerate_simps str_nat_small decimal_digits_def)

text \<open>
  C5. \<open>handle_copy_all\<close> shows the error \<open>Nothing to copy\<close> exactly when the store is
  empty, and then changes nothing. On a store with notes it hands \<open>all_text\<close> to the
  clipboard, or prints it in full when the clipboard is missing or fails. \<open>all_text\<close> is
  the lines \<open>{i}. {note}\<close>, numbered from 1 in store order, joined by newlines; for the
  store \<open>[a, b]\<close> it is \<open>1. a\<close>, a newline, \<open>2. b\<close>.
\<close>

theorem copy_all_numbers_the_notes:
  "(ShowError ''Nothing to copy'' \<in> set (snd (snd (handle_copy_all e s)))) = (notes s = [])
   \<and> (notes s = [] \<longrightarrow> handle_copy_all e s = (Returned, s, [ShowError ''Nothing to copy'']))
   \<and> (notes s \<noteq> [] \<and> HAS_CLIPBOARD e \<and> copy_failure e = None \<longrightarrow>
        handle_copy_all e s =
          (Returned, s\<lparr>clipboard := Some (all_text (notes s))\<rparr>,
           [ShowStatus (''Copied all '' @ str_nat (length (notes s)) @ '' notes'')]))
   \<and> (notes s \<noteq> [] \<and> \<not> HAS_CLIPBOARD e \<longrightarrow>
        handle_copy_all e s =
          (Returned, s,
           [ShowError ''Clipboard not available - install pyperclip'',
            PrintTextContent (all_text (notes s))]))
   \<and> (notes s \<noteq> [] \<and> HAS_CLIPBOARD e \<and> copy_failure e = Some msg \<longrightarrow>
        handle_copy_all e s =
          (Returned, s,
           [ShowError (''Copy failed: '' @ msg), PrintTextContent (all_text (notes s))]))
   \<and> all_text ns = join [newline] (map (\<lambda>i. str_nat (i + 1) @ ''. '' @ ns ! i) [0..<length ns])
   \<and> all_text [''a'', ''b''] = ''1. a'' @ [newline] @ ''2. b''"
proof -
  have "(ShowError ''Nothing to copy'' \<in> set (snd (snd (handle_copy_all e s)))) = (notes s = [])"
    by (auto simp: handle_copy_all_def safe_clipboard_copy_def split: option.splits)
  moreover have "notes s = [] \<longrightarrow> handle_copy_all e s = (Returned, s, [ShowError ''Nothing to copy''])"
    by (simp add: handle_copy_all_def)
  moreover have "notes s \<noteq> [] \<and> HAS_CLIPBOARD e \<and> copy_failure e = None \<longrightarrow>
        handle_copy_all e s =
          (Returned, s\<lparr>clipboard := Some (all_text (notes s))\<rparr>,
           [ShowStatus (''Copied all '' @ str_nat (length (notes s)) @ '' notes'')])"
    by (simp add: handle_copy_all_def safe_clipboard_copy_def)
  moreover have "notes s \<noteq> [] \<and> \<not> HAS_CLIPBOARD e \<longrightarrow>
        handle_copy_all e s =
          (Returned, s,
           [ShowError ''Clipboard not available - install pyperclip'',
            PrintTextContent (all_text (notes s))])"
    by (simp add: handle_copy_all_def safe_clipboard_copy_def)
  moreover have "notes s \<noteq> [] \<and> HAS_CLIPBOARD e \<and> copy_failure e = Some msg \<longrightarrow>
        handle_copy_all e s =
          (Returned, s,
           [ShowError (''Copy failed: '' @ msg), PrintTextContent (all_text (notes s))])"
    by (simp add: handle_copy_all_def safe_clipboard_copy_def)
  ultimately show ?thesis using all_text_nth [of ns] all_text_ab by blast
qed

text \<open>C5 on the empty store and on \<open>[a, b]\<close>, with a working, a missing and a failing
  clipboard.\<close>

theorem copy_all_numbers_the_notes_witness:
  "handle_copy_all example_env (empty_pad 5) = (Returned, empty_pad 5, [ShowError ''Nothing to copy''])
   \<and> handle_copy_all example_env ((empty_pad 5)\<lparr>notes := [''a'', ''b'']\<rparr>)
     = (Returned, (empty_pad 5)\<lparr>notes := [''a'', ''b''], clipboard := Some (''1. a'' @ [newline] @ ''2. b'')\<rparr>,
        [ShowStatus ''Copied all 2 notes''])
   \<and> handle_copy_all (example_env\<lparr>HAS_CLIPBOARD := False\<rparr>) ((empty_pad 5)\<lparr>notes := [''a'', ''b'']\<rparr>)
     = (Returned, (empty_pad 5)\<lparr>notes := [''a'', ''b'']\<rparr>,
        [ShowError ''Clipboard not available - install pyperclip'',
         PrintTextContent (''1. a'' @ [newline] @ ''2. b'')])
   \<and> handle_copy_all (example_env\<lparr>copy_failure := Some ''no display''\<rparr>)
        ((empty_pad 5)\<lparr>notes := [''a'', ''b'']\<rparr>)
     = (Returned, (empty_pad 5)\<lparr>notes := [''a'', ''b'']\<rparr>,
        [ShowError ''Copy failed: no display'', PrintTextContent (''1. a'' @ [newline] @ ''2. b'')])"
  using copy_all_numbers_the_notes [where e = example_env and s = "empty_pad 5"]
        copy_all_numbers_the_notes
          [where e = example_env and s = "(empty_pad 5)\<lparr>notes := [''a'', ''b'']\<rparr>"]
        copy_all_numbers_the_notes
          [where e = "example_env\<lparr>HAS_CLIPBOARD := False\<rparr>"
             and s = "(empty_pad 5)\<lparr>notes := [''a'', ''b'']\<rparr>"]
        copy_all_numbers_the_notes
          [where e = "example_env\<lparr>copy_failure := Some ''no display''\<rparr>"
             and s = "(empty_pad 5)\<lparr>notes := [''a'', ''b'']\<rparr>" and msg = "''no display''"]
  by (simp add: empty_pad_def example_env_def str_nat_small decimal_digits_def)

section \<open>Refused adds, the history file and failing side channels\<close>

lemma lower_Cons: "lower (c # cs) = lower_char c # lower cs"
  by (simp add: lower_def)

lemma lower_char_a: "lower_char (CHR ''a'') = CHR ''a''"
  by (simp add: lower_char_def uppercase_def lowercase_def)

lemma lower_char_c: "lower_char (CHR ''c'') = CHR ''c''"
  by (simp add: lower_char_def uppercase_def lowercase_def)

lemma lower_char_d: "lower_char (CHR ''d'') = CHR ''d''"
  by (simp add: lower_char_def uppercase_def lowercase_def)

lemma dispatch_add: "dispatch e s (''add '' @ t) = handle_add e s (strip t)"
  by (simp add: dispatch_def lower_Cons lower_char_a startswith_def)





































section \<open>Searching\<close>

lemma startswith_iff: "startswith s p \<longleftrightarrow> (\<exists>post. s = p @ post)"
proof
  assume "startswith s p"
  then have "s = p @ drop (length p) s"
    unfolding startswith_def by (metis append_take_drop_id)
  then show "\<exists>post. s = p @ post" ..
next
  assume "\<exists>post. s = p @ post"
  then show "startswith s p" by (auto simp: startswith_def)
qed

lemma contains_iff: "contains s q \<longleftrightarrow> (\<exists>pre post. s = pre @ q @ post)"
proof (induction s)
  case Nil
  then show ?case by auto
next
  case (Cons c cs)
  show ?case
  proof
    assume "contains (c # cs) q"
    then consider "startswith (c # cs) q" | "contains cs q" by auto
    then show "\<exists>pre post. c # cs = pre @ q @ post"
    proof cases
      case 1
      then obtain post where "c # cs = q @ post" by (auto simp: startswith_iff)
      then have "c # cs = [] @ q @ post" by simp
      then show ?thesis by blast
    next
      case 2
      with Cons.IH obtain pre post where "cs = pre @ q @ post" by auto
      then have "c # cs = (c # pre) @ q @ post" by simp
      then show ?thesis by blast
    qed
  next
    assume "\<exists>pre post. c # cs = pre @ q @ post"
    then obtain pre post where eq: "c # cs = pre @ q @ post" by auto
    show "contains (c # cs) q"
    proof (cases pre)
      case Nil
      with eq have "startswith (c # cs) q" by (auto simp: startswith_iff)
      then show ?thesis by simp
    next
      case (Cons p pre')
      with eq have "cs = pre' @ q @ post" by simp
      with Cons.IH have "contains cs q" by auto
      then show ?thesis by simp
    qed
  qed
qed

lemma search_loop_enumerate:
  "search_loop q i ns
     = filter (\<lambda>(k, n). contains (lower n) (lower q)) (enumerate (Suc i) ns)"
  by (induction ns arbitrary: i) simp_all

lemma search_matches_filter:
  "search_matches q ns
     = filter (\<lambda>(i, n). \<exists>pre post. lower n = pre @ lower q @ post) (enumerate 1 ns)"
  by (simp add: search_matches_def search_loop_enumerate contains_iff)

lemma search_matches_member:
  "(i, n) \<in> set (search_matches q ns) \<longleftrightarrow>
     1 \<le> i \<and> i \<le> length ns \<and> n = ns ! (i - 1) \<and> (\<exists>pre post. lower n = pre @ lower q @ post)"
  by (auto simp: search_matches_filter in_set_enumerate_eq)

lemma search_matches_ascending: "sorted_wrt (<) (map fst (search_matches q ns))"
proof -
  have "sorted_wrt (<) (map fst (enumerate 1 ns))"
    by (simp only: map_fst_enumerate sorted_wrt_upt)
  then have "sorted_wrt (\<lambda>x y. fst x < fst y) (enumerate 1 ns)"
    by (simp only: sorted_wrt_map)
  then have "sorted_wrt (\<lambda>x y. fst x < fst y) (search_matches q ns)"
    unfolding search_matches_filter by (rule sorted_wrt_filter)
  then show ?thesis by (simp only: sorted_wrt_map)
qed

lemma search_hello: "search_matches ''HELLO'' [''Hello world''] = [(1, ''Hello world'')]"
  by (simp add: search_matches_def lower_def lower_char_def uppercase_def lowercase_def
        startswith_def)

text \<open>
  C4, as the code has it. The matches that \<open>handle_search\<close> collects are exactly the
  pairs of a 1-based position and the note at that position whose lowercased text has the
  lowercased query as a contiguous part, in ascending order of position; \<open>HELLO\<close> matches
  the note \<open>Hello world\<close>. With a non-empty query, matches are shown (and Enter awaited);
  no match is reported through \<open>show_error\<close>, as the other refusals are, with a message of
  its own that differs from the one for an empty query, and the state stays as it was.
\<close>

theorem search_finds_matches_case_insensitively:
  "search_matches q ns
     = filter (\<lambda>(i, n). \<exists>pre post. lower n = pre @ lower q @ post) (enumerate 1 ns)
   \<and> ((i, n) \<in> set (search_matches q ns)) =
       (1 \<le> i \<and> i \<le> length ns \<and> n = ns ! (i - 1) \<and> (\<exists>pre post. lower n = pre @ lower q @ post))
   \<and> sorted_wrt (<) (map fst (search_matches q ns))
   \<and> search_matches ''HELLO'' [''Hello world''] = [(1, ''Hello world'')]
   \<and> (q \<noteq> [] \<and> search_matches q (notes s) \<noteq> [] \<and> stdin s \<noteq> [] \<longrightarrow>
        handle_search s q =
          (Returned, s\<lparr>stdin := tl (stdin s)\<rparr>,
           [SearchResults q
              (map (\<lambda>(i, n). (i, replace q (''['' @ q @ '']'') n)) (search_matches q (notes s)))]))
   \<and> (q \<noteq> [] \<and> search_matches q (notes s) = [] \<longrightarrow>
        handle_search s q =
          (Returned, s,
           [ShowError (''No notes found containing '' @ [apostrophe] @ q @ [apostrophe])]))
   \<and> handle_search s [] = (Returned, s, [ShowError ''Please provide a search term''])
   \<and> ''No notes found containing '' @ [apostrophe] @ q @ [apostrophe]
       \<noteq> ''Please provide a search term''"
proof -
  have "q \<noteq> [] \<and> search_matches q (notes s) \<noteq> [] \<and> stdin s \<noteq> [] \<longrightarrow>
        handle_search s q =
          (Returned, s\<lparr>stdin := tl (stdin s)\<rparr>,
           [SearchResults q
              (map (\<lambda>(i, n). (i, replace q (''['' @ q @ '']'') n)) (search_matches q (notes s)))])"
    by (cases "stdin s") (simp_all add: handle_search_def py_input_def)
  moreover have "q \<noteq> [] \<and> search_matches q (notes s) = [] \<longrightarrow>
        handle_search s q =
          (Returned, s,
           [ShowError (''No notes found containing '' @ [apostrophe] @ q @ [apostrophe])])"
    by (simp add: handle_search_def)
  moreover have "handle_search s [] = (Returned, s, [ShowError ''Please provide a search term''])"
    by (simp add: handle_search_def)
  moreover have "''No notes found containing '' @ [apostrophe] @ q @ [apostrophe]
       \<noteq> ''Please provide a search term''"
    by simp
  ultimately show ?thesis
    using search_matches_filter [of q ns] search_matches_member [of i n q ns]
      search_matches_ascending [of q ns] search_hello
    by blast
qed

text \<open>
  C4 says that a query without a match is not an error; the code shows one: line 225
  calls \<open>show_error\<close>.
\<close>

theorem search_without_match_shows_error:
  "handle_search ((empty_pad 5)\<lparr>notes := [''Hello world'']\<rparr>) ''bye''
     = (Returned, (empty_pad 5)\<lparr>notes := [''Hello world'']\<rparr>,
        [ShowError (''No notes found containing '' @ [apostrophe] @ ''bye'' @ [apostrophe])])"
  by (simp add: handle_search_def search_matches_def empty_pad_def lower_def lower_char_def
        uppercase_def lowercase_def startswith_def)

text \<open>C4 on the store \<open>[Hello world]\<close>: the query \<open>HELLO\<close> matches, \<open>bye\<close> does not.\<close>

theorem search_finds_matches_case_insensitively_witness:
  "handle_search ((empty_pad 5)\<lparr>notes := [''Hello world''], stdin := ['''']\<rparr>) ''HELLO''
     = (Returned, (empty_pad 5)\<lparr>notes := [''Hello world'']\<rparr>,
        [SearchResults ''HELLO'' [(1, ''Hello world'')]])
   \<and> handle_search ((empty_pad 5)\<lparr>notes := [''Hello world'']\<rparr>) ''bye''
     = (Returned, (empty_pad 5)\<lparr>notes := [''Hello world'']\<rparr>,
        [ShowError (''No notes found containing '' @ [apostrophe] @ ''bye'' @ [apostrophe])])"
proof -
  have m: "search_matches ''HELLO'' [''Hello world''] = [(1, ''Hello world'')]"
    and b: "search_matches ''bye'' [''Hello world''] = []"
    by (simp_all add: search_matches_def lower_def lower_char_def uppercase_def lowercase_def
          startswith_def)
  have r: "replace ''HELLO'' ''[HELLO]'' ''Hello world'' = ''Hello world''"
    by (simp add: replace.simps startswith_def)
  from search_finds_matches_case_insensitively
         [where s = "(empty_pad 5)\<lparr>notes := [''Hello world''], stdin := ['''']\<rparr>"
            and q = "''HELLO''" and ns = "[]" and i = 0 and n = "[]"]
  have 1: "handle_search ((empty_pad 5)\<lparr>notes := [''Hello world''], stdin := ['''']\<rparr>) ''HELLO''
     = (Returned, (empty_pad 5)\<lparr>notes := [''Hello world'']\<rparr>,
        [SearchResults ''HELLO'' [(1, ''Hello world'')]])"
    by (simp add: empty_pad_def m r)
  from search_finds_matches_case_insensitively
         [where s = "(empty_pad 5)\<lparr>notes := [''Hello world'']\<rparr>"
            and q = "''bye''" and ns = "[]" and i = 0 and n = "[]"]
  have 2: "handle_search ((empty_pad 5)\<lparr>notes := [''Hello world'']\<rparr>) ''bye''
     = (Returned, (empty_pad 5)\<lparr>notes := [''Hello world'']\<rparr>,
        [ShowError (''No notes found containing '' @ [apostrophe] @ ''bye'' @ [apostrophe])])"
    by (simp add: empty_pad_def b)
  from 1 2 show ?thesis by simp
qed

section \<open>Commands\<close>

text \<open>
  C6. \<open>parse_command\<close> lowercases the first word, so it reads \<open>ADD hello\<close> and
  \<open>add hello\<close> alike; but \<open>run\<close> never calls it. The loop tests
  \<open>command.startswith("add ")\<close> on the line as typed: \<open>add hello\<close> appends the note and
  \<open>ADD hello\<close> is answered as an unknown command.
\<close>

theorem uppercase_add_is_not_dispatched:
  "dispatch example_env (empty_pad 5) ''ADD hello'' = (Returned, empty_pad 5, [unknown_command])
   \<and> dispatch example_env (empty_pad 5) ''add hello''
       = (Returned,
          (empty_pad 5)\<lparr>notes := [''hello''],
             history_content :=
               Some (history_header @ ''- [2024-03-09 07:05:00] hello'' @ [newline])\<rparr>,
          [ShowStatus ''Added note #1''])
   \<and> parse_command ''ADD hello'' = Inr (Some (''add'', ''hello''))
   \<and> parse_command ''add hello'' = Inr (Some (''add'', ''hello''))"
proof -
  have "dispatch example_env (empty_pad 5) ''ADD hello'' = (Returned, empty_pad 5, [unknown_command])"
    by (simp add: dispatch_def unknown_command_def lower_def lower_char_def uppercase_def
          lowercase_def startswith_def)
  moreover have "dispatch example_env (empty_pad 5) ''add hello''
       = (Returned,
          (empty_pad 5)\<lparr>notes := [''hello''],
             history_content :=
               Some (history_header @ ''- [2024-03-09 07:05:00] hello'' @ [newline])\<rparr>,
          [ShowStatus ''Added note #1''])"
    using dispatch_add [of example_env "empty_pad 5" "''hello''"]
    by (simp add: handle_add_def append_note_def log_to_history_def history_line_def
          strftime_def zero_pad_def str_nat.simps decimal_digits_def strip_def isspace_def
          whitespace_def example_env_def empty_pad_def)
  moreover have "parse_command ''ADD hello'' = Inr (Some (''add'', ''hello''))"
    "parse_command ''add hello'' = Inr (Some (''add'', ''hello''))"
    by (simp_all add: parse_command_def split_once_def isspace_def whitespace_def lower_def
          lower_char_def uppercase_def lowercase_def)
  ultimately show ?thesis by simp
qed

lemma lower_copy: "lower (''copy '' @ rest) = ''copy '' @ lower rest"
  by (simp add: lower_def lower_char_def uppercase_def lowercase_def)

lemma lower_delete: "lower (''delete '' @ rest) = ''delete '' @ lower rest"
  by (simp add: lower_def lower_char_def uppercase_def lowercase_def)

lemma dispatch_copy:
  assumes "lower rest \<noteq> ''all''"
  shows "dispatch e s (''copy '' @ rest) =
     (if isdigit (strip rest) then
        (case py_int (int_max_str_digits e) (strip rest) of
           Inl err \<Rightarrow> (Raised err, s, [])
         | Inr index \<Rightarrow> handle_copy e s index)
      else (Returned, s, [ShowError ''Usage: copy <number>'']))"
proof -
  have "lower (''copy '' @ rest) \<noteq> ''exit''" "lower (''copy '' @ rest) \<noteq> ''copy all''"
    "lower (''copy '' @ rest) \<noteq> ''delete all''"
    using assms lower_copy [of rest] by simp_all
  moreover have "\<not> startswith (''copy '' @ rest) ''add ''" "startswith (''copy '' @ rest) ''copy ''"
    "drop 5 (''copy '' @ rest) = rest"
    by (simp_all add: startswith_def)
  ultimately show ?thesis
    unfolding dispatch_def Let_def by (simp only: if_False if_True)
qed

lemma dispatch_delete:
  assumes "lower rest \<noteq> ''all''"
  shows "dispatch e s (''delete '' @ rest) =
     (if isdigit (strip rest) then
        (case py_int (int_max_str_digits e) (strip rest) of
           Inl err \<Rightarrow> (Raised err, s, [])
         | Inr index \<Rightarrow> handle_delete s index)
      else (Returned, s, [ShowError ''Usage: delete <number>'']))"
proof -
  have "lower (''delete '' @ rest) \<noteq> ''exit''" "lower (''delete '' @ rest) \<noteq> ''copy all''"
    "lower (''delete '' @ rest) \<noteq> ''delete all''"
    using assms lower_delete [of rest] by simp_all
  moreover have "\<not> startswith (''delete '' @ rest) ''add ''"
    "\<not> startswith (''delete '' @ rest) ''copy ''"
    "startswith (''delete '' @ rest) ''delete ''"
    "drop 7 (''delete '' @ rest) = rest"
    by (simp_all add: startswith_def)
  ultimately show ?thesis
    unfolding dispatch_def Let_def by (simp only: if_False if_True)
qed

lemma handle_delete_invalid:
  "i < 1 \<or> int (length (notes s)) < i \<Longrightarrow>
     handle_delete s i = (Returned, s, [ShowError ''Invalid note number''])"
  by (simp add: handle_delete_def)

lemma py_int_zero: "isdigit ''0''" "py_int lim ''0'' = Inr 0"
  by (auto simp: isdigit_def isdigit_char_def py_int_def decimal_digits_def decimal_value_def
        digit_value_def)

text \<open>
  C7, as the code has it. For a line \<open>copy\<close> or \<open>delete\<close>, a blank and an argument other
  than \<open>all\<close> (in any case: \<open>copy all\<close> and \<open>delete all\<close> are commands of their own): an
  argument that is not a string of digits once trimmed gets the usage message and
  leaves the state as it was, no store operation being called; an argument of digits
  that \<open>int\<close> converts is passed on to \<open>handle_copy\<close> or \<open>handle_delete\<close>, 0 included,
  and it is their own bound check that refuses an index below 1, with the message for an
  invalid note number and the state unchanged.
\<close>

theorem copy_and_delete_check_their_argument:
  "(lower rest \<noteq> ''all'' \<and> \<not> isdigit (strip rest) \<longrightarrow>
      dispatch e s (''copy '' @ rest) = (Returned, s, [ShowError ''Usage: copy <number>''])
      \<and> dispatch e s (''delete '' @ rest) = (Returned, s, [ShowError ''Usage: delete <number>'']))
   \<and> (lower rest \<noteq> ''all'' \<and> isdigit (strip rest)
        \<and> py_int (int_max_str_digits e) (strip rest) = Inr k \<longrightarrow>
      dispatch e s (''copy '' @ rest) = handle_copy e s k
      \<and> dispatch e s (''delete '' @ rest) = handle_delete s k)
   \<and> (k < 1 \<longrightarrow>
      handle_copy e s k = (Returned, s, [ShowError ''Invalid note number''])
      \<and> handle_delete s k = (Returned, s, [ShowError ''Invalid note number'']))
   \<and> dispatch e s ''copy 0'' = (Returned, s, [ShowError ''Invalid note number''])
   \<and> dispatch e s ''delete 0'' = (Returned, s, [ShowError ''Invalid note number''])"
proof -
  have zero: "strip ''0'' = ''0''"
    by (simp add: strip_def isspace_def whitespace_def)
  have all: "lower ''0'' \<noteq> ''all''"
    by (simp add: lower_def)
  have "dispatch e s (''copy '' @ ''0'') = (Returned, s, [ShowError ''Invalid note number''])"
    using dispatch_copy [OF all, of e s]
    by (simp add: zero py_int_zero handle_copy_invalid)
  moreover
  have "dispatch e s (''delete '' @ ''0'') = (Returned, s, [ShowError ''Invalid note number''])"
    using dispatch_delete [OF all, of e s]
    by (simp add: zero py_int_zero handle_delete_invalid)
  ultimately show ?thesis
    using dispatch_copy [of rest e s] dispatch_delete [of rest e s]
    by (simp add: handle_copy_invalid handle_delete_invalid)
qed

text \<open>
  C7 says that the argument 0 gets the usage message without reaching the store; it
  passes \<open>isdigit\<close>, reaches \<open>handle_copy\<close> and \<open>handle_delete\<close>, and gets their message.
  And the argument \<open>all\<close>, which is no number, makes \<open>delete\<close> clear the store.
\<close>

theorem copy_zero_reaches_the_store:
  "dispatch example_env ((empty_pad 5)\<lparr>notes := [''a'', ''b'']\<rparr>) ''copy 0''
     = (Returned, (empty_pad 5)\<lparr>notes := [''a'', ''b'']\<rparr>, [ShowError ''Invalid note number''])
   \<and> dispatch example_env ((empty_pad 5)\<lparr>notes := [''a'', ''b'']\<rparr>) ''delete 0''
     = (Returned, (empty_pad 5)\<lparr>notes := [''a'', ''b'']\<rparr>, [ShowError ''Invalid note number''])
   \<and> ShowError ''Invalid note number'' \<noteq> ShowError ''Usage: copy <number>''
   \<and> ShowError ''Invalid note number'' \<noteq> ShowError ''Usage: delete <number>''
   \<and> dispatch example_env ((empty_pad 5)\<lparr>notes := [''a'', ''b'']\<rparr>) ''delete all''
     = (Returned, empty_pad 5, [ShowStatus ''Deleted all 2 notes''])"
  by (simp add: dispatch_def lower_def lower_char_def uppercase_def lowercase_def startswith_def
        strip_def isspace_def whitespace_def py_int_zero handle_copy_def handle_delete_def
        handle_delete_all_def str_nat_small decimal_digits_def empty_pad_def)

text \<open>C7 for the arguments \<open>two\<close>, \<open>2\<close> behind two blanks, and the index 0.\<close>

theorem copy_and_delete_check_their_argument_witness:
  "dispatch example_env ((empty_pad 5)\<lparr>notes := [''a'', ''b'']\<rparr>) ''copy two''
     = (Returned, (empty_pad 5)\<lparr>notes := [''a'', ''b'']\<rparr>, [ShowError ''Usage: copy <number>''])
   \<and> dispatch example_env ((empty_pad 5)\<lparr>notes := [''a'', ''b'']\<rparr>) ''delete two''
     = (Returned, (empty_pad 5)\<lparr>notes := [''a'', ''b'']\<rparr>, [ShowError ''Usage: delete <number>''])
   \<and> dispatch example_env ((empty_pad 5)\<lparr>notes := [''a'', ''b'']\<rparr>) ''delete  2''
     = handle_delete ((empty_pad 5)\<lparr>notes := [''a'', ''b'']\<rparr>) 2
   \<and> handle_copy example_env ((empty_pad 5)\<lparr>notes := [''a'', ''b'']\<rparr>) 0
     = (Returned, (empty_pad 5)\<lparr>notes := [''a'', ''b'']\<rparr>, [ShowError ''Invalid note number''])"
proof -
  have two: "lower ''two'' \<noteq> ''all''" "\<not> isdigit (strip ''two'')"
    by (simp_all add: lower_def lower_char_def uppercase_def lowercase_def strip_def isspace_def
          whitespace_def isdigit_def isdigit_char_def decimal_digits_def)
  have num: "lower '' 2'' \<noteq> ''all''" "isdigit (strip '' 2'')"
    "py_int (int_max_str_digits example_env) (strip '' 2'') = Inr 2"
    by (simp_all add: lower_def strip_def isspace_def whitespace_def isdigit_def isdigit_char_def
          decimal_digits_def py_int_def decimal_value_def digit_value_def example_env_def)
  from copy_and_delete_check_their_argument
         [where rest = "''two''" and e = example_env and k = 0
            and s = "(empty_pad 5)\<lparr>notes := [''a'', ''b'']\<rparr>"] two
  have a: "dispatch example_env ((empty_pad 5)\<lparr>notes := [''a'', ''b'']\<rparr>) ''copy two''
     = (Returned, (empty_pad 5)\<lparr>notes := [''a'', ''b'']\<rparr>, [ShowError ''Usage: copy <number>''])"
    and b: "dispatch example_env ((empty_pad 5)\<lparr>notes := [''a'', ''b'']\<rparr>) ''delete two''
     = (Returned, (empty_pad 5)\<lparr>notes := [''a'', ''b'']\<rparr>, [ShowError ''Usage: delete <number>''])"
    and d: "handle_copy example_env ((empty_pad 5)\<lparr>notes := [''a'', ''b'']\<rparr>) 0
     = (Returned, (empty_pad 5)\<lparr>notes := [''a'', ''b'']\<rparr>, [ShowError ''Invalid note number''])"
    by simp_all
  from copy_and_delete_check_their_argument
         [where rest = "'' 2''" and e = example_env and k = 2
            and s = "(empty_pad 5)\<lparr>notes := [''a'', ''b'']\<rparr>"] num
  have c: "dispatch example_env ((empty_pad 5)\<lparr>notes := [''a'', ''b'']\<rparr>) ''delete  2''
     = handle_delete ((empty_pad 5)\<lparr>notes := [''a'', ''b'']\<rparr>) 2"
    by simp
  from a b c d show ?thesis by simp
qed

text \<open>
  A superscript two passes \<open>isdigit\<close> and is not a decimal digit for \<open>int\<close>: the
  \<open>ValueError\<close> leaves the loop.
\<close>

lemma superscript_digit_raises:
  "dispatch example_env (empty_pad 5) (''copy '' @ [CHR 0xB2]) = (Raised ValueError, empty_pad 5, [])"
  by (simp add: dispatch_def lower_def lower_char_def uppercase_def lowercase_def startswith_def
        strip_def isspace_def whitespace_def isdigit_def isdigit_char_def decimal_digits_def
        py_int_def)

section \<open>A session\<close>

text \<open>
  The program from \<open>main\<close> on, with no history file yet and six typed lines: two notes are
  added (the lines are trimmed), the first is deleted, the remaining one copied; \<open>ADD\<close>
  in capitals is not a command, the index 0 is refused by the store, and the end of the
  input ends the session with status 0.
\<close>

lemma session_scenario:
  "main example_env (\<lambda>i. example_env)
     ((empty_pad 0)\<lparr>history_content := None,
        stdin := [''add buy milk'', ''  add  call mom '', ''delete 1'', ''copy 1'', ''ADD x'', ''copy 0'']\<rparr>)
   = (0,
      \<lparr>notes = [''call mom''], history_file = ''Scratchmd.md'', max_notes = 100, unsaved_notes = [],
        history_content = Some (history_header @ ''- [2024-03-09 07:05:00] buy milk'' @ [newline]
           @ ''- [2024-03-09 07:05:00] call mom'' @ [newline]),
        clipboard = Some ''call mom'', stdin = []\<rparr>,
      [Welcome,
       Screen [] 0 100 True, ShowStatus ''Added note #1'',
       Screen [(1, ''buy milk'', False)] 1 100 True, ShowStatus ''Added note #2'',
       Screen [(1, ''buy milk'', False), (2, ''call mom'', False)] 2 100 True,
       ShowStatus (''Deleted: '' @ [apostrophe] @ ''buy milk'' @ [apostrophe]),
       Screen [(1, ''call mom'', False)] 1 100 True, ShowStatus ''Copied note #1'',
       Screen [(1, ''call mom'', False)] 1 100 True, unknown_command,
       Screen [(1, ''call mom'', False)] 1 100 True, ShowError ''Invalid note number'',
       Screen [(1, ''call mom'', False)] 1 100 True, Goodbye])"
  by code_simp

end
